theory Spec2Isabelle
  imports Complex_Main "HOL-Library.Word"
begin

unbundle bit_operations_syntax

section \<open>GPU buffer upload policy (renderer_gl.go)\<close>

text \<open>
  The renderer keeps two package-level counters, \<open>rgl_vertex_buffer_len\<close> and
  \<open>rgl_element_buffer_len\<close>, and talks to OpenGL. The OpenGL calls are recorded in a
  trace; the pointer argument \<open>gl.Ptr(data)\<close> is left out of the trace, the target,
  offset and byte size are kept. \<open>RGL_CheckError\<close> only reads the error flag and logs.
\<close>

datatype gl_target = ARRAY_BUFFER | ELEMENT_ARRAY_BUFFER

datatype gl_call =
    BufferData gl_target int
  | BufferSubData gl_target int int

record rgl_state =
  rgl_vertex_buffer_len :: int
  rgl_element_buffer_len :: int
  gl_trace :: "gl_call list"

definition VertexStructSize :: int where
  "VertexStructSize = 9 * 4"

definition len :: "'a list \<Rightarrow> int" where
  "len xs = int (length xs)"

definition RGL_UpdateVertexData :: "rgl_state \<Rightarrow> 'a list \<Rightarrow> rgl_state" where
  "RGL_UpdateVertexData s data =
     (if rgl_vertex_buffer_len s \<noteq> len data
      then s\<lparr> gl_trace := gl_trace s @ [BufferData ARRAY_BUFFER (len data * VertexStructSize)],
              rgl_vertex_buffer_len := len data \<rparr>
      else s\<lparr> gl_trace := gl_trace s @ [BufferSubData ARRAY_BUFFER 0 (len data * VertexStructSize)] \<rparr>)"

definition RGL_UpdateElementData :: "rgl_state \<Rightarrow> 'a list \<Rightarrow> rgl_state" where
  "RGL_UpdateElementData s data =
     (if rgl_element_buffer_len s \<noteq> len data
      then s\<lparr> gl_trace := gl_trace s @ [BufferData ELEMENT_ARRAY_BUFFER (len data * 4)],
              rgl_element_buffer_len := len data \<rparr>
      else s\<lparr> gl_trace := gl_trace s @ [BufferSubData ELEMENT_ARRAY_BUFFER 0 (len data * 4)] \<rparr>)"

text \<open>The OpenGL call issued by the most recent upload.\<close>

definition last_call :: "rgl_state \<Rightarrow> gl_call option" where
  "last_call s = (if gl_trace s = [] then None else Some (last (gl_trace s)))"

fun is_realloc :: "gl_call option \<Rightarrow> bool" where
  "is_realloc (Some (BufferData _ _)) = True"
| "is_realloc _ = False"

fun is_patch :: "gl_call option \<Rightarrow> bool" where
  "is_patch (Some (BufferSubData _ _ _)) = True"
| "is_patch _ = False"

section \<open>Backend version check (nvimproc.go)\<close>

text \<open>
  \<open>requestApiInfo\<close> asks the backend for its API description and reads the three
  version numbers out of it. The result of \<open>proc.handle.APIInfo()\<close> is the input of the
  model: \<open>None\<close> when the call returned an error, otherwise the triple
  (major, minor, patch) that the reflection code extracts. The log lines are the output.
\<close>

datatype log_level = LEVEL_TRACE | LEVEL_DEBUG | LEVEL_WARN | LEVEL_ERROR | LEVEL_FATAL

type_synonym log_entry = "log_level \<times> string"

text \<open>
  Modelled from the spec: \<open>logMessage\<close> is absent from the sources. The spec calls
  the version failure fatal, so a line logged at \<open>LEVEL_FATAL\<close> ends the run and nothing is
  logged after it; at every other level \<open>logMessage\<close> returns.
\<close>

fun logMessages :: "log_entry list \<Rightarrow> log_entry list" where
  "logMessages [] = []"
| "logMessages ((lvl, msg) # rest) =
     (if lvl = LEVEL_FATAL then [(lvl, msg)] else (lvl, msg) # logMessages rest)"

definition requestApiInfo :: "(int \<times> int \<times> int) option \<Rightarrow> log_entry list" where
  "requestApiInfo info =
     (case info of
        None \<Rightarrow> logMessages [(LEVEL_ERROR, ''Failed to get api information:'')]
      | Some (vMajor, vMinor, vPatch) \<Rightarrow>
          logMessages
            ((if vMinor < 4
              then [(LEVEL_FATAL, ''Neoray needs at least 0.4.0 version of neovim. Please update your neovim to a newer version.'')]
              else [])
             @ [(LEVEL_TRACE, ''Neovim version'')]))"

text \<open>The handshake fails fatally when a line of level FATAL is logged.\<close>

definition fails_fatally :: "log_entry list \<Rightarrow> bool" where
  "fails_fatally logs = (LEVEL_FATAL \<in> fst ` set logs)"

text \<open>Versions are ordered lexicographically on (major, minor, patch).\<close>

fun version_below :: "int \<times> int \<times> int \<Rightarrow> int \<times> int \<times> int \<Rightarrow> bool" where
  "version_below (a, b, c) (x, y, z) =
     (a < x \<or> (a = x \<and> (b < y \<or> (b = y \<and> c < z))))"

section \<open>Machine identity (ipc.go, getMacAddress)\<close>

text \<open>
  A network interface as \<open>net.Interface\<close> gives it, reduced to the two fields the function
  reads. \<open>net.FlagUp\<close> is the lowest flag bit. The input of the model is the result of
  \<open>net.Interfaces()\<close>: \<open>None\<close> when it returned an error.
\<close>

record Interface =
  Flags :: "32 word"
  HardwareAddr :: "8 word list"

definition FlagUp :: "32 word" where
  "FlagUp = 1"

text \<open>
  The inner loop \<open>for j, b := range i.HardwareAddr\<close>: \<open>mac <<= 8; mac += uint64(b)\<close>,
  left at index 8.
\<close>

fun mac_loop :: "64 word \<Rightarrow> nat \<Rightarrow> 8 word list \<Rightarrow> 64 word" where
  "mac_loop mac j [] = mac"
| "mac_loop mac j (b # bs) =
     (if j \<ge> 8 then mac else mac_loop (push_bit 8 mac + ucast b) (Suc j) bs)"

text \<open>
  The outer loop over the interfaces. \<open>bytes.Compare(i.HardwareAddr, nil) != 0\<close> holds
  exactly for a non-empty address, so \<open>i.HardwareAddr[0]\<close> is read in range.
\<close>

fun interfaces_loop :: "Interface list \<Rightarrow> 64 word" where
  "interfaces_loop [] = 0"
| "interfaces_loop (i # rest) =
     (if Flags i AND FlagUp \<noteq> 0 \<and> HardwareAddr i \<noteq> []
      then (if hd (HardwareAddr i) AND 2 = 2
            then interfaces_loop rest
            else mac_loop 0 0 (HardwareAddr i))
      else interfaces_loop rest)"

definition getMacAddress :: "Interface list option \<Rightarrow> 64 word" where
  "getMacAddress r = (case r of None \<Rightarrow> 0 | Some interfaces \<Rightarrow> interfaces_loop interfaces)"

text \<open>
  The specification's reading, to compare with: the value of a byte string read as a
  big-endian number, and the interfaces that qualify.
\<close>

definition big_endian :: "8 word list \<Rightarrow> nat" where
  "big_endian bs = foldl (\<lambda>a b. a * 256 + unat b) 0 bs"

definition usable :: "Interface \<Rightarrow> bool" where
  "usable i = (bit (Flags i) 0 \<and> HardwareAddr i \<noteq> [] \<and> \<not> bit (hd (HardwareAddr i)) 1)"

definition mac_step :: "64 word \<Rightarrow> 8 word \<Rightarrow> 64 word" where
  "mac_step m b = push_bit 8 m + ucast b"

section \<open>Coordination protocol (ipc.go)\<close>

subsection \<open>Messages\<close>

text \<open>
  \<open>IpcMessageType\<close> is a Go \<open>int\<close>; the five constants are numbered by \<open>iota\<close>. A
  decoded message can carry any integer as its type.
\<close>

type_synonym IpcMessageType = int

definition IPC_MSG_TYPE_OK :: IpcMessageType where
  "IPC_MSG_TYPE_OK = 0"

definition IPC_MSG_TYPE_CLOSE_CONN :: IpcMessageType where
  "IPC_MSG_TYPE_CLOSE_CONN = 1"

definition IPC_MSG_TYPE_OPEN_FILE :: IpcMessageType where
  "IPC_MSG_TYPE_OPEN_FILE = 2"

definition IPC_MSG_TYPE_GOTO_LINE :: IpcMessageType where
  "IPC_MSG_TYPE_GOTO_LINE = 3"

definition IPC_MSG_TYPE_GOTO_COLUMN :: IpcMessageType where
  "IPC_MSG_TYPE_GOTO_COLUMN = 4"

text \<open>
  The dynamic values an \<open>interface{}\<close> argument holds: the six kinds that the comment in
  \<open>IpcServer.update\<close> lists for decoded JSON (nil, bool, float64, string,
  \<open>[]interface{}\<close>, \<open>map[string]interface{}\<close>) and Go's \<open>int\<close>, which is what a caller
  passes for a line or column number. A \<open>float64\<close> is represented by the real number it
  denotes (so it is finite), a string is its list of bytes, a map is its association list
  in key order, each key once.
\<close>

datatype go_value =
    GoNil
  | GoBool bool
  | GoInt int
  | GoFloat64 real
  | GoString string
  | GoSlice "go_value list"
  | GoMap "(string \<times> go_value) list"

record IpcFuncCall =
  MsgType :: IpcMessageType
  MacAddress :: "64 word"
  Args :: "go_value list"

text \<open>
  \<open>json.Marshal\<close> and \<open>json.Unmarshal\<close> belong to Go's standard library. The protocol
  functions take them as a parameter: a codec over some wire type \<open>'w\<close>, \<open>None\<close> standing
  for a returned error.
\<close>

record 'w codec =
  Marshal :: "IpcFuncCall \<Rightarrow> 'w option"
  Unmarshal :: "'w \<Rightarrow> IpcFuncCall option"

text \<open>The result of one \<open>conn.Read\<close>: an error, or the bytes that arrived.\<close>

datatype 'w read_result = ReadError | ReadOk 'w

subsection \<open>Client\<close>

text \<open>
  What one \<open>Call\<close> does: the value it returns, the data handed to \<open>conn.Write\<close>,
  whether it closed the connection, and its log lines.
\<close>

record 'w call_result =
  returned :: bool
  sent :: "'w list"
  client_closed :: bool
  client_log :: "log_entry list"

definition call_end :: "bool \<Rightarrow> 'w list \<Rightarrow> bool \<Rightarrow> log_entry list \<Rightarrow> 'w call_result" where
  "call_end r ws c l = \<lparr> returned = r, sent = ws, client_closed = c, client_log = l \<rparr>"

text \<open>
  \<open>IpcClient.Call\<close>. The client is given by its \<open>mac\<close>; \<open>write_ok\<close> tells whether
  \<open>conn.Write\<close> succeeded and \<open>resp\<close> is the result of the one \<open>conn.Read\<close>.
\<close>

definition Call ::
  "'w codec \<Rightarrow> 64 word \<Rightarrow> IpcMessageType \<Rightarrow> go_value list \<Rightarrow> bool \<Rightarrow> 'w read_result
     \<Rightarrow> 'w call_result" where
  "Call cd client_mac msgType args write_ok resp =
     (let l0 = [(LEVEL_DEBUG, ''Sending signal:'')] in
      case Marshal cd \<lparr> MsgType = msgType, MacAddress = client_mac, Args = args \<rparr> of
        None \<Rightarrow> call_end False [] False (l0 @ [(LEVEL_WARN, ''Failed to encode function call:'')])
      | Some jsonData \<Rightarrow>
          if \<not> write_ok
          then call_end False [jsonData] False (l0 @ [(LEVEL_WARN, ''Failed to send signal:'')])
          else
            (case resp of
               ReadError \<Rightarrow>
                 call_end False [jsonData] False (l0 @ [(LEVEL_WARN, ''Failed to read response:'')])
             | ReadOk data \<Rightarrow>
                 (case Unmarshal cd data of
                    None \<Rightarrow>
                      call_end False [jsonData] False
                        (l0 @ [(LEVEL_WARN, ''Failed to decode response:'')])
                  | Some funcCall \<Rightarrow>
                      if MacAddress funcCall \<noteq> client_mac
                      then call_end False [jsonData] False
                             (l0 @ [(LEVEL_WARN, ''Signal rejected: Connected server is not running on same machine.'')])
                      else if MsgType funcCall = IPC_MSG_TYPE_CLOSE_CONN
                      then call_end True [jsonData] True
                             (l0 @ [(LEVEL_TRACE, ''Disconnected from server.'')])
                      else if MsgType funcCall \<noteq> IPC_MSG_TYPE_OK
                      then call_end False [jsonData] False
                             (l0 @ [(LEVEL_TRACE, ''Client sent non OK response:'')])
                      else call_end True [jsonData] False l0)))"

subsection \<open>Server\<close>

text \<open>
  The server record; \<open>listening\<close> stands for the listener and the accept loop of
  \<open>mainLoop\<close> being alive.
\<close>

record IpcServer =
  mac :: "64 word"
  callsAvailable :: bool
  calls :: "IpcFuncCall list"
  listening :: bool

definition appendNewCall :: "IpcServer \<Rightarrow> IpcFuncCall \<Rightarrow> IpcServer" where
  "appendNewCall server call = server\<lparr> calls := calls server @ [call], callsAvailable := True \<rparr>"

text \<open>
  The two replies that \<open>mainLoop\<close> encodes before it accepts connections; it returns
  at once when either cannot be encoded.
\<close>

definition encodedReplies :: "'w codec \<Rightarrow> IpcServer \<Rightarrow> ('w \<times> 'w) option" where
  "encodedReplies cd server =
     (case Marshal cd \<lparr> MsgType = IPC_MSG_TYPE_OK, MacAddress = mac server, Args = [] \<rparr> of
        None \<Rightarrow> None
      | Some encodedOK \<Rightarrow>
          (case Marshal cd \<lparr> MsgType = IPC_MSG_TYPE_CLOSE_CONN, MacAddress = mac server, Args = [] \<rparr> of
             None \<Rightarrow> None
           | Some encodedCLOSE \<Rightarrow> Some (encodedOK, encodedCLOSE)))"

text \<open>
  The goroutine started for one accepted connection. Its state: the server it shares with
  the other readers, what it handed to \<open>conn.Write\<close>, whether the connection is closed,
  its log lines, and whether the goroutine has returned. The deferred \<open>conn.Close()\<close>
  runs when it returns.
\<close>

record 'w reader =
  server :: IpcServer
  written :: "'w list"
  conn_closed :: bool
  server_log :: "log_entry list"
  ended :: bool

definition logw :: "log_level \<Rightarrow> string \<Rightarrow> 'w reader \<Rightarrow> 'w reader" where
  "logw lvl msg r = r\<lparr> server_log := server_log r @ [(lvl, msg)] \<rparr>"

definition finish :: "'w reader \<Rightarrow> 'w reader" where
  "finish r = r\<lparr> conn_closed := True, ended := True \<rparr>"

text \<open>
  One turn of the reader's \<open>for\<close> loop, given the result of its \<open>conn.Read\<close> and whether
  the \<open>conn.Write\<close> of this turn (if it makes one) succeeds. In Go a \<open>break\<close> inside a
  \<open>switch\<close> case leaves the \<open>switch\<close>, so after the two \<open>break\<close>s of the \<open>switch\<close> the
  loop goes on; the \<open>break\<close> of the identity check is directly inside the \<open>for\<close> and
  leaves the loop; \<open>continue\<close> starts the next turn.
\<close>

definition reader_turn ::
  "'w codec \<Rightarrow> 'w \<Rightarrow> 'w \<Rightarrow> 'w reader \<Rightarrow> 'w read_result \<Rightarrow> bool \<Rightarrow> 'w reader" where
  "reader_turn cd encodedOK encodedCLOSE r rd write_ok =
     (case rd of
        ReadError \<Rightarrow> logw LEVEL_WARN ''Failed to read client data:'' r
      | ReadOk data \<Rightarrow>
          (case Unmarshal cd data of
             None \<Rightarrow> logw LEVEL_WARN ''Failed to decode client data:'' r
           | Some funcCall \<Rightarrow>
               if MacAddress funcCall \<noteq> mac (server r)
               then finish (logw LEVEL_WARN ''Signal Rejected: Connected client is not running on same machine.'' r)
               else if MsgType funcCall = IPC_MSG_TYPE_CLOSE_CONN
               then
                 (let r1 = logw LEVEL_TRACE ''Client disconnected.'' r;
                      r2 = r1\<lparr> written := written r1 @ [encodedCLOSE] \<rparr>
                  in if \<not> write_ok
                     then logw LEVEL_WARN ''Failed to send response to client.'' r2
                     else finish r2)
               else
                 (let r1 = r\<lparr> server := appendNewCall (server r) funcCall \<rparr>;
                      r2 = r1\<lparr> written := written r1 @ [encodedOK] \<rparr>
                  in if \<not> write_ok
                     then logw LEVEL_WARN ''Failed to send response to client.'' r2
                     else r2)))"

text \<open>
  The loop itself, run over the reads that the connection delivers (each paired with the
  outcome of that turn's write). It stops when the goroutine returns; when the reads run
  out the goroutine is blocked in \<open>conn.Read\<close> and \<open>ended\<close> is still false.
\<close>

fun reader_loop ::
  "'w codec \<Rightarrow> 'w \<Rightarrow> 'w \<Rightarrow> 'w reader \<Rightarrow> ('w read_result \<times> bool) list \<Rightarrow> 'w reader" where
  "reader_loop cd encodedOK encodedCLOSE r [] = r"
| "reader_loop cd encodedOK encodedCLOSE r ((rd, write_ok) # rest) =
     (let r' = reader_turn cd encodedOK encodedCLOSE r rd write_ok
      in if ended r' then r' else reader_loop cd encodedOK encodedCLOSE r' rest)"

definition new_reader :: "IpcServer \<Rightarrow> 'w reader" where
  "new_reader s = \<lparr> server = s, written = [], conn_closed = False, server_log = [], ended = False \<rparr>"

subsection \<open>Dispatch of queued calls\<close>

text \<open>
  \<open>IpcServer.update\<close> runs on the main thread. \<open>call.Args[0]\<close> panics on an empty
  \<open>Args\<close>, and the type assertions \<open>.(string)\<close> and \<open>.(float64)\<close> panic on a value of
  another dynamic type. \<open>int(x)\<close> on a \<open>float64\<close> drops the fraction.
\<close>

datatype panic = IndexOutOfRange | TypeAssertion

datatype nvim_op =
    openFile string
  | gotoLine int
  | gotoColumn int
  | invalidSignal
  | windowRaise

definition go_int :: "real \<Rightarrow> int" where
  "go_int x = (if 0 \<le> x then \<lfloor>x\<rfloor> else \<lceil>x\<rceil>)"

definition dispatch :: "IpcFuncCall \<Rightarrow> panic + nvim_op" where
  "dispatch call =
     (if MsgType call = IPC_MSG_TYPE_OPEN_FILE then
        (case Args call of
           [] \<Rightarrow> Inl IndexOutOfRange
         | a # _ \<Rightarrow> (case a of GoString path \<Rightarrow> Inr (openFile path) | _ \<Rightarrow> Inl TypeAssertion))
      else if MsgType call = IPC_MSG_TYPE_GOTO_LINE then
        (case Args call of
           [] \<Rightarrow> Inl IndexOutOfRange
         | a # _ \<Rightarrow> (case a of GoFloat64 x \<Rightarrow> Inr (gotoLine (go_int x)) | _ \<Rightarrow> Inl TypeAssertion))
      else if MsgType call = IPC_MSG_TYPE_GOTO_COLUMN then
        (case Args call of
           [] \<Rightarrow> Inl IndexOutOfRange
         | a # _ \<Rightarrow> (case a of GoFloat64 x \<Rightarrow> Inr (gotoColumn (go_int x)) | _ \<Rightarrow> Inl TypeAssertion))
      else Inr invalidSignal)"

fun dispatch_all :: "IpcFuncCall list \<Rightarrow> panic + nvim_op list" where
  "dispatch_all [] = Inr []"
| "dispatch_all (call # rest) =
     (case dispatch call of
        Inl p \<Rightarrow> Inl p
      | Inr op \<Rightarrow> (case dispatch_all rest of Inl p \<Rightarrow> Inl p | Inr ops \<Rightarrow> Inr (op # ops)))"

definition update :: "IpcServer \<Rightarrow> panic + (IpcServer \<times> nvim_op list)" where
  "update s =
     (if callsAvailable s
      then (case dispatch_all (calls s) of
              Inl p \<Rightarrow> Inl p
            | Inr ops \<Rightarrow> Inr (s\<lparr> calls := [], callsAvailable := False \<rparr>, ops @ [windowRaise]))
      else Inr (s, []))"

text \<open>
  The precondition in the claim's words: a queued open-file record starts with a string,
  a queued goto record starts with a number.
\<close>

definition args_expected :: "IpcFuncCall \<Rightarrow> bool" where
  "args_expected call =
     (if MsgType call = IPC_MSG_TYPE_OPEN_FILE
      then (case Args call of GoString _ # _ \<Rightarrow> True | _ \<Rightarrow> False)
      else if MsgType call = IPC_MSG_TYPE_GOTO_LINE \<or> MsgType call = IPC_MSG_TYPE_GOTO_COLUMN
      then (case Args call of GoFloat64 _ # _ \<Rightarrow> True | _ \<Rightarrow> False)
      else True)"

subsection \<open>The JSON encoding of a message\<close>

text \<open>
  A model of what \<open>json.Marshal\<close> and \<open>json.Unmarshal\<close> do to an \<open>IpcFuncCall\<close>, at the
  level of JSON values; the text of a value and its parsing are left out, and a number
  stands for its value. Encoding follows the types: a number for \<open>int\<close>, \<open>uint64\<close> and
  \<open>float64\<close>, a string, a boolean, \<open>null\<close> for nil (also for a nil \<open>Args\<close>), an array for
  a slice, an object for a map and for the struct, with the field names as keys. Decoding
  into \<open>interface{}\<close> follows the table in the comment of \<open>IpcServer.update\<close>: bool for
  JSON booleans, float64 for JSON numbers, string for JSON strings, \<open>[]interface{}\<close> for
  JSON arrays, \<open>map[string]interface{}\<close> for JSON objects, nil for JSON null. The number
  decoded from an encoded \<open>int\<close> is the \<open>float64\<close> of the same value as long as a
  \<open>float64\<close> holds it exactly, which is up to magnitude \<open>2 ^ 53\<close>; the rounding beyond is
  not modelled.
\<close>

datatype json =
    JNull
  | JBool bool
  | JNumber real
  | JString string
  | JArray "json list"
  | JObject "(string \<times> json) list"

text \<open>
  Strings are written and read as UTF-8. \<open>rune_size\<close> is the number of bytes of the
  well-formed UTF-8 sequence at the head of a string, 0 when there is none: one byte below
  \<open>0x80\<close>; a lead byte \<open>0xC2\<close> to \<open>0xDF\<close> and one continuation byte; \<open>0xE0\<close> to
  \<open>0xEF\<close> and two; \<open>0xF0\<close> to \<open>0xF4\<close> and three, where the first continuation byte is
  narrowed after \<open>0xE0\<close>, \<open>0xED\<close>, \<open>0xF0\<close> and \<open>0xF4\<close> (no overlong forms, no
  surrogates, nothing above U+10FFFF).
\<close>

definition in_range :: "char \<Rightarrow> nat \<Rightarrow> nat \<Rightarrow> bool" where
  "in_range c lo hi = (lo \<le> of_char c \<and> of_char c \<le> hi)"

definition rune_size :: "string \<Rightarrow> nat" where
  "rune_size s =
     (case s of
        [] \<Rightarrow> 0
      | a # t \<Rightarrow>
          (let x = of_char a :: nat in
           if x < 0x80 then 1
           else if 0xC2 \<le> x \<and> x \<le> 0xDF then
             (case t of
                b # _ \<Rightarrow> if in_range b 0x80 0xBF then 2 else 0
              | _ \<Rightarrow> 0)
           else if 0xE0 \<le> x \<and> x \<le> 0xEF then
             (case t of
                b # c # _ \<Rightarrow>
                  if in_range b (if x = 0xE0 then 0xA0 else 0x80) (if x = 0xED then 0x9F else 0xBF)
                     \<and> in_range c 0x80 0xBF
                  then 3 else 0
              | _ \<Rightarrow> 0)
           else if 0xF0 \<le> x \<and> x \<le> 0xF4 then
             (case t of
                b # c # d # _ \<Rightarrow>
                  if in_range b (if x = 0xF0 then 0x90 else 0x80) (if x = 0xF4 then 0x8F else 0xBF)
                     \<and> in_range c 0x80 0xBF \<and> in_range d 0x80 0xBF
                  then 4 else 0
              | _ \<Rightarrow> 0)
           else 0))"

text \<open>
  Both the encoder and the decoder put U+FFFD, the bytes \<open>EF BF BD\<close>, in the place of
  every byte that does not start a well-formed sequence. The first argument of
  \<open>coerce_from\<close> and of \<open>valid_from\<close> counts the bytes of the current sequence that are
  still to be passed over.
\<close>

definition replacement_char :: string where
  "replacement_char = [CHR 0xEF, CHR 0xBF, CHR 0xBD]"

fun coerce_from :: "nat \<Rightarrow> string \<Rightarrow> string" where
  "coerce_from k [] = []"
| "coerce_from (Suc k) (a # s) = a # coerce_from k s"
| "coerce_from 0 (a # s) =
     (if rune_size (a # s) = 0 then replacement_char @ coerce_from 0 s
      else a # coerce_from (rune_size (a # s) - 1) s)"

definition coerce_utf8 :: "string \<Rightarrow> string" where
  "coerce_utf8 s = coerce_from 0 s"

fun valid_from :: "nat \<Rightarrow> string \<Rightarrow> bool" where
  "valid_from k [] = True"
| "valid_from (Suc k) (a # s) = valid_from k s"
| "valid_from 0 (a # s) = (rune_size (a # s) \<noteq> 0 \<and> valid_from (rune_size (a # s) - 1) s)"

definition valid_utf8 :: "string \<Rightarrow> bool" where
  "valid_utf8 s = valid_from 0 s"

text \<open>
  The members of an encoded map are in the order of its keys, and a decoded object gives
  a map member by member. Two members of an encoded map have the same key only when keys
  of the map were not valid UTF-8 and were replaced; the decoded list then keeps both,
  where a Go map keeps the later one.
\<close>

fun marshal_value :: "go_value \<Rightarrow> json" where
  "marshal_value GoNil = JNull"
| "marshal_value (GoBool b) = JBool b"
| "marshal_value (GoInt i) = JNumber (of_int i)"
| "marshal_value (GoFloat64 x) = JNumber x"
| "marshal_value (GoString s) = JString (coerce_utf8 s)"
| "marshal_value (GoSlice vs) = JArray (map marshal_value vs)"
| "marshal_value (GoMap kvs) = JObject (map (map_prod coerce_utf8 marshal_value) kvs)"

fun unmarshal_value :: "json \<Rightarrow> go_value" where
  "unmarshal_value JNull = GoNil"
| "unmarshal_value (JBool b) = GoBool b"
| "unmarshal_value (JNumber x) = GoFloat64 x"
| "unmarshal_value (JString s) = GoString (coerce_utf8 s)"
| "unmarshal_value (JArray js) = GoSlice (map unmarshal_value js)"
| "unmarshal_value (JObject kvs) = GoMap (map (map_prod coerce_utf8 unmarshal_value) kvs)"

definition json_Marshal :: "IpcFuncCall \<Rightarrow> json option" where
  "json_Marshal call =
     Some (JObject
       [(''MsgType'', JNumber (of_int (MsgType call))),
        (''MacAddress'', JNumber (of_nat (unat (MacAddress call)))),
        (''Args'', if Args call = [] then JNull else JArray (map marshal_value (Args call)))])"

text \<open>
  Decoding into the struct starts from the zero value and takes the members of the
  object in their order, so a later member of the same name overrides an earlier one.
  For the two number fields \<open>null\<close> changes nothing, and a number must be whole and within
  the range of the field's type (64 bits, signed for the \<open>int\<close>, unsigned for the
  \<open>uint64\<close>); for \<open>Args\<close>, \<open>null\<close> gives the nil slice and an array its decoded elements.
  A member of another name is skipped, any other value is an error, and \<open>null\<close> in the
  place of the whole object leaves the zero value. Names are compared byte for byte
  (\<open>json.Unmarshal\<close> also accepts a name that differs in letter case).
\<close>

definition decode_int :: "real \<Rightarrow> int option" where
  "decode_int x =
     (if of_int \<lfloor>x\<rfloor> = x \<and> - (2 ^ 63) \<le> x \<and> x < 2 ^ 63 then Some \<lfloor>x\<rfloor> else None)"

definition decode_uint64 :: "real \<Rightarrow> 64 word option" where
  "decode_uint64 x =
     (if of_int \<lfloor>x\<rfloor> = x \<and> 0 \<le> x \<and> x < 2 ^ 64 then Some (word_of_int \<lfloor>x\<rfloor>) else None)"

definition zero_call :: IpcFuncCall where
  "zero_call = \<lparr> MsgType = 0, MacAddress = 0, Args = [] \<rparr>"

definition decode_member :: "IpcFuncCall \<Rightarrow> string \<times> json \<Rightarrow> IpcFuncCall option" where
  "decode_member call member =
     (let name = fst member; v = snd member in
      if name = ''MsgType'' then
        (case v of
           JNull \<Rightarrow> Some call
         | JNumber x \<Rightarrow> map_option (\<lambda>t. call\<lparr> MsgType := t \<rparr>) (decode_int x)
         | _ \<Rightarrow> None)
      else if name = ''MacAddress'' then
        (case v of
           JNull \<Rightarrow> Some call
         | JNumber x \<Rightarrow> map_option (\<lambda>m. call\<lparr> MacAddress := m \<rparr>) (decode_uint64 x)
         | _ \<Rightarrow> None)
      else if name = ''Args'' then
        (case v of
           JNull \<Rightarrow> Some (call\<lparr> Args := [] \<rparr>)
         | JArray js \<Rightarrow> Some (call\<lparr> Args := map unmarshal_value js \<rparr>)
         | _ \<Rightarrow> None)
      else Some call)"

fun decode_members :: "IpcFuncCall \<Rightarrow> (string \<times> json) list \<Rightarrow> IpcFuncCall option" where
  "decode_members call [] = Some call"
| "decode_members call (member # rest) =
     (case decode_member call member of
        None \<Rightarrow> None
      | Some call' \<Rightarrow> decode_members call' rest)"

definition json_Unmarshal :: "json \<Rightarrow> IpcFuncCall option" where
  "json_Unmarshal j =
     (case j of
        JObject members \<Rightarrow> decode_members zero_call members
      | JNull \<Rightarrow> Some zero_call
      | _ \<Rightarrow> None)"

definition json_codec :: "json codec" where
  "json_codec = \<lparr> Marshal = json_Marshal, Unmarshal = json_Unmarshal \<rparr>"



subsection \<open>The reader of an accepted connection\<close>

text \<open>
  \<open>mainLoop\<close> encodes its two replies, then accepts connections and starts a reader for
  each. The reader of one accepted connection, run over the reads that the connection
  delivers; \<open>None\<close> when \<open>mainLoop\<close> returned before accepting because a reply could not
  be encoded.
\<close>

definition mainLoop_reader ::
  "'w codec \<Rightarrow> 'w reader \<Rightarrow> ('w read_result \<times> bool) list \<Rightarrow> 'w reader option" where
  "mainLoop_reader cd r evs =
     (case encodedReplies cd (server r) of
        None \<Rightarrow> None
      | Some (encodedOK, encodedCLOSE) \<Rightarrow> Some (reader_loop cd encodedOK encodedCLOSE r evs))"

subsection \<open>One request over a connection\<close>

text \<open>
  On the connection the encoded messages are bytes. Both \<open>Call\<close> and the reader pass
  \<open>conn.Read\<close> a buffer of \<open>DEFAULT_BUFFER_SIZE\<close> bytes, so one read returns that many
  bytes at most and the rest waits for the next read. \<open>reads\<close> gives the reads by which
  the bytes of one write arrive at the other end when they arrive together; nothing
  written, nothing to read.
\<close>

definition DEFAULT_BUFFER_SIZE :: nat where
  "DEFAULT_BUFFER_SIZE = 1024"

definition reads :: "string \<Rightarrow> string list" where
  "reads bs =
     map (\<lambda>i. take DEFAULT_BUFFER_SIZE (drop (i * DEFAULT_BUFFER_SIZE) bs))
       [0 ..< (length bs + DEFAULT_BUFFER_SIZE - 1) div DEFAULT_BUFFER_SIZE]"

text \<open>
  What the client's one \<open>conn.Read\<close> gets after the reader went from \<open>r\<close> to \<open>r'\<close>: the
  first read of what the reader wrote meanwhile, or a read error when the reader wrote
  nothing and closed the connection. \<open>None\<close>: the reader neither wrote nor closed, and the
  client's read, which has no timeout, stays blocked.
\<close>

definition server_reply :: "string reader \<Rightarrow> string reader \<Rightarrow> string read_result option" where
  "server_reply r r' =
     (case concat (map reads (drop (length (written r)) (written r'))) of
        d # _ \<Rightarrow> Some (ReadOk d)
      | [] \<Rightarrow> if conn_closed r' then Some ReadError else None)"

text \<open>
  A client \<open>Call\<close> against the reader of its connection, when every write succeeds: the
  reader takes its turns on the reads of the encoded call, and the client reads the
  reader's answer. The result is what \<open>Call\<close> did (\<open>None\<close> when it never returns) and
  the reader afterwards.
\<close>

definition request ::
  "string codec \<Rightarrow> string reader \<Rightarrow> 64 word \<Rightarrow> IpcMessageType \<Rightarrow> go_value list
     \<Rightarrow> string call_result option \<times> string reader" where
  "request cd r client_mac msgType args =
     (case Marshal cd \<lparr> MsgType = msgType, MacAddress = client_mac, Args = args \<rparr> of
        None \<Rightarrow> (Some (Call cd client_mac msgType args True ReadError), r)
      | Some jsonData \<Rightarrow>
          (case mainLoop_reader cd r (map (\<lambda>d. (ReadOk d, True)) (reads jsonData)) of
             None \<Rightarrow> (None, r)
           | Some r' \<Rightarrow>
               (map_option (Call cd client_mac msgType args True) (server_reply r r'), r')))"

subsection \<open>Sample values\<close>

definition sample_server :: IpcServer where
  "sample_server = \<lparr> mac = 7, callsAvailable = False, calls = [], listening = True \<rparr>"

definition sample_msg :: "IpcMessageType \<Rightarrow> 64 word \<Rightarrow> go_value list \<Rightarrow> json" where
  "sample_msg t m args =
     JObject [(''MsgType'', JNumber (of_int t)), (''MacAddress'', JNumber (of_nat (unat m))),
              (''Args'', if args = [] then JNull else JArray (map marshal_value args))]"

definition sample_reader :: "json reader" where
  "sample_reader = new_reader sample_server"

definition sample_turn :: "json reader \<Rightarrow> json read_result \<Rightarrow> bool \<Rightarrow> json reader" where
  "sample_turn =
     reader_turn json_codec (sample_msg IPC_MSG_TYPE_OK 7 []) (sample_msg IPC_MSG_TYPE_CLOSE_CONN 7 [])"

definition sample_loop :: "json reader \<Rightarrow> (json read_result \<times> bool) list \<Rightarrow> json reader" where
  "sample_loop =
     reader_loop json_codec (sample_msg IPC_MSG_TYPE_OK 7 []) (sample_msg IPC_MSG_TYPE_CLOSE_CONN 7 [])"

definition sample_call :: "64 word \<Rightarrow> json read_result \<Rightarrow> bool \<Rightarrow> json call_result" where
  "sample_call m resp write_ok =
     Call json_codec m IPC_MSG_TYPE_OPEN_FILE [GoString ''foo.txt''] write_ok resp"

subsection \<open>A codec on bytes for the concrete checks\<close>

text \<open>
  The compact JSON text that \<open>json.Marshal\<close> writes for a call whose type is not
  negative and whose arguments are strings of printable ASCII characters that need no
  escape, and a decoder of that text. \<open>plain\<close> leaves out the quote, the backslash and
  the three characters \<open><\<close>, \<open>>\<close> and \<open>&\<close>, which \<open>json.Marshal\<close> writes as escapes.
  This codec covers that fragment only: it gives \<open>None\<close> for every other call and every
  other text, whether or not \<open>encoding/json\<close> would accept it, and the concrete checks
  apply it inside the fragment, and to texts that \<open>encoding/json\<close> refuses as well.
\<close>

definition plain :: "char \<Rightarrow> bool" where
  "plain c = (32 \<le> (of_char c :: nat) \<and> (of_char c :: nat) < 127 \<and>
              c \<notin> {CHR 0x22, CHR 0x5C, CHR ''<'', CHR ''>'', CHR ''&''})"

fun plain_string :: "go_value \<Rightarrow> bool" where
  "plain_string (GoString s) = list_all plain s"
| "plain_string _ = False"

fun dec :: "nat \<Rightarrow> string" where
  "dec n = (if n < 10 then [''0123456789'' ! n] else dec (n div 10) @ [''0123456789'' ! (n mod 10)])"

declare dec.simps [simp del]

fun quoted :: "go_value \<Rightarrow> string" where
  "quoted (GoString s) = [CHR 0x22] @ s @ [CHR 0x22]"
| "quoted _ = []"

fun comma_separated :: "string list \<Rightarrow> string" where
  "comma_separated [] = []"
| "comma_separated [x] = x"
| "comma_separated (x # y # rest) = x @ '','' @ comma_separated (y # rest)"

definition text_Marshal :: "IpcFuncCall \<Rightarrow> string option" where
  \<open>text_Marshal call =
     (if 0 \<le> MsgType call \<and> list_all plain_string (Args call)
      then Some (''{"MsgType":'' @ dec (nat (MsgType call))
                 @ '',"MacAddress":'' @ dec (unat (MacAddress call))
                 @ '',"Args":''
                 @ (if Args call = [] then ''null''
                    else ''['' @ comma_separated (map quoted (Args call)) @ '']'')
                 @ ''}'')
      else None)\<close>

definition is_digit :: "char \<Rightarrow> bool" where
  "is_digit c = (48 \<le> (of_char c :: nat) \<and> (of_char c :: nat) \<le> 57)"

definition parse_nat :: "string \<Rightarrow> (nat \<times> string) option" where
  "parse_nat s =
     (let ds = takeWhile is_digit s in
      if ds = [] \<or> (hd ds = CHR ''0'' \<and> tl ds \<noteq> []) then None
      else Some (foldl (\<lambda>n c. 10 * n + (of_char c - 48)) 0 ds, dropWhile is_digit s))"

fun strip_prefix :: "string \<Rightarrow> string \<Rightarrow> string option" where
  "strip_prefix [] s = Some s"
| "strip_prefix (p # ps) [] = None"
| "strip_prefix (p # ps) (c # s) = (if p = c then strip_prefix ps s else None)"

definition strip_suffix :: "string \<Rightarrow> string \<Rightarrow> string option" where
  "strip_suffix p s = map_option rev (strip_prefix (rev p) (rev s))"

datatype item_mode = AtStart | AfterComma | InString | AfterString

fun items :: "item_mode \<Rightarrow> string \<Rightarrow> string \<Rightarrow> string list option" where
  "items AtStart cur [] = Some []"
| "items AfterComma cur [] = None"
| "items InString cur [] = None"
| "items AfterString cur [] = Some []"
| "items AtStart cur (c # s) = (if c = CHR 0x22 then items InString [] s else None)"
| "items AfterComma cur (c # s) = (if c = CHR 0x22 then items InString [] s else None)"
| "items InString cur (c # s) =
     (if c = CHR 0x22 then map_option ((#) cur) (items AfterString [] s)
      else if plain c then items InString (cur @ [c]) s
      else None)"
| "items AfterString cur (c # s) = (if c = CHR '','' then items AfterComma [] s else None)"

definition parse_args :: "string \<Rightarrow> go_value list option" where
  \<open>parse_args s =
     (if s = ''null}'' then Some []
      else Option.bind (strip_prefix ''['' s) (\<lambda>s1.
           Option.bind (strip_suffix '']}'' s1) (\<lambda>body.
           map_option (map GoString) (items AtStart [] body))))\<close>

definition text_Unmarshal :: "string \<Rightarrow> IpcFuncCall option" where
  \<open>text_Unmarshal bs =
     Option.bind (strip_prefix ''{"MsgType":'' bs) (\<lambda>s1.
     Option.bind (parse_nat s1) (\<lambda>(t, s2).
     Option.bind (strip_prefix '',"MacAddress":'' s2) (\<lambda>s3.
     Option.bind (parse_nat s3) (\<lambda>(m, s4).
     Option.bind (strip_prefix '',"Args":'' s4) (\<lambda>s5.
     Option.bind (parse_args s5) (\<lambda>args.
       if t < 2 ^ 63 \<and> m < 2 ^ 64
       then Some \<lparr> MsgType = int t, MacAddress = word_of_nat m, Args = args \<rparr>
       else None))))))\<close>




section \<open>Key input (the input event handlers)\<close>

text \<open>
  The GLFW keys that the handlers name, and \<open>KeyOther\<close> for every other key code (the
  letter and digit keys among them). \<open>glfw.ModifierKey\<close> is a bit set with Shift = 1,
  Control = 2, Alt = 4 and Super = 8.
\<close>

datatype glfw_key =
    KeyEscape | KeyEnter | KeyKPEnter | KeySpace | KeyBackspace
  | KeyUp | KeyDown | KeyRight | KeyLeft | KeyTab
  | KeyInsert | KeyDelete | KeyHome | KeyEnd | KeyPageUp | KeyPageDown
  | KeyF1 | KeyF2 | KeyF3 | KeyF4 | KeyF5 | KeyF6
  | KeyF7 | KeyF8 | KeyF9 | KeyF10 | KeyF11 | KeyF12
  | KeyLeftControl | KeyRightControl | KeyLeftAlt | KeyRightAlt
  | KeyLeftShift | KeyRightShift | KeyLeftSuper | KeyRightSuper
  | KeyOther int

datatype glfw_action = Release | Press | Repeat

definition ModShift :: int where "ModShift = 1"
definition ModControl :: int where "ModControl = 2"
definition ModAlt :: int where "ModAlt = 4"
definition ModSuper :: int where "ModSuper = 8"

fun SpecialKeys :: "glfw_key \<Rightarrow> string option" where
  "SpecialKeys KeyEscape = Some ''ESC''"
| "SpecialKeys KeyEnter = Some ''CR''"
| "SpecialKeys KeyKPEnter = Some ''kEnter''"
| "SpecialKeys KeySpace = Some ''Space''"
| "SpecialKeys KeyBackspace = Some ''BS''"
| "SpecialKeys KeyUp = Some ''Up''"
| "SpecialKeys KeyDown = Some ''Down''"
| "SpecialKeys KeyRight = Some ''Right''"
| "SpecialKeys KeyLeft = Some ''Left''"
| "SpecialKeys KeyTab = Some ''Tab''"
| "SpecialKeys KeyInsert = Some ''Insert''"
| "SpecialKeys KeyDelete = Some ''Del''"
| "SpecialKeys KeyHome = Some ''Home''"
| "SpecialKeys KeyEnd = Some ''End''"
| "SpecialKeys KeyPageUp = Some ''PageUp''"
| "SpecialKeys KeyPageDown = Some ''PageDown''"
| "SpecialKeys KeyF1 = Some ''F1''"
| "SpecialKeys KeyF2 = Some ''F2''"
| "SpecialKeys KeyF3 = Some ''F3''"
| "SpecialKeys KeyF4 = Some ''F4''"
| "SpecialKeys KeyF5 = Some ''F5''"
| "SpecialKeys KeyF6 = Some ''F6''"
| "SpecialKeys KeyF7 = Some ''F7''"
| "SpecialKeys KeyF8 = Some ''F8''"
| "SpecialKeys KeyF9 = Some ''F9''"
| "SpecialKeys KeyF10 = Some ''F10''"
| "SpecialKeys KeyF11 = Some ''F11''"
| "SpecialKeys KeyF12 = Some ''F12''"
| "SpecialKeys _ = None"

text \<open>The codes of \<open>ModifierKeys\<close> are one-character strings; the model keeps the character.\<close>

fun ModifierKeys :: "glfw_key \<Rightarrow> char option" where
  "ModifierKeys KeyLeftControl = Some CHR ''C''"
| "ModifierKeys KeyRightControl = Some CHR ''C''"
| "ModifierKeys KeyLeftAlt = Some CHR ''A''"
| "ModifierKeys KeyRightAlt = Some CHR ''A''"
| "ModifierKeys KeyLeftShift = Some CHR ''S''"
| "ModifierKeys KeyRightShift = Some CHR ''S''"
| "ModifierKeys KeyLeftSuper = Some CHR ''D''"
| "ModifierKeys KeyRightSuper = Some CHR ''D''"
| "ModifierKeys _ = None"

text \<open>
  The package-level variables that the key handler reads and writes. Modelled from the
  spec: \<open>popupMenu.Hide\<close> is absent from the sources; it closes the menu, which
  \<open>popupMenuVisible\<close> records.
\<close>

record input_state =
  lastMouseModifiers :: string
  zoomInKey :: string
  zoomOutKey :: string
  toggleFullscreenKey :: string
  popupMenuEnabled :: bool
  popupMenuVisible :: bool

datatype input_effect =
    IncreaseFontSize
  | DecreaseFontSize
  | ToggleFullscreen
  | PopupMenuHide
  | NvimInput string

definition InitializeInputEvents :: input_state where
  "InitializeInputEvents =
     \<lparr> lastMouseModifiers = [], zoomInKey = ''<C-+>'', zoomOutKey = ''<C-->'',
       toggleFullscreenKey = ''<F11>'', popupMenuEnabled = True, popupMenuVisible = False \<rparr>"

text \<open>
  The first half of \<open>KeyEventHandler\<close> for a key that is not a modifier: the token it
  builds, or \<open>None\<close> where it returns without one. \<open>getKeyName\<close> stands for
  \<open>glfw.GetKeyName\<close>.
\<close>

definition keycode_of :: "int \<Rightarrow> string \<Rightarrow> string" where
  "keycode_of mods keyname =
     ''<'' @ (if mods AND ModControl \<noteq> 0 then ''C-'' else '''')
          @ (if mods AND ModShift \<noteq> 0 then ''S-'' else '''')
          @ (if mods AND ModAlt \<noteq> 0 then ''A-'' else '''')
          @ (if mods AND ModSuper \<noteq> 0 then ''D-'' else '''')
          @ keyname @ ''>''"

definition key_token ::
  "(glfw_key \<Rightarrow> int \<Rightarrow> string) \<Rightarrow> glfw_key \<Rightarrow> int \<Rightarrow> int \<Rightarrow> string option" where
  "key_token getKeyName key scancode mods =
     (let ctrl = mods AND ModControl \<noteq> 0;
          shift = mods AND ModShift \<noteq> 0;
          alt = mods AND ModAlt \<noteq> 0;
          super = mods AND ModSuper \<noteq> 0
      in case SpecialKeys key of
           Some name \<Rightarrow> Some (keycode_of mods name)
         | None \<Rightarrow>
             if shift \<or> alt \<or> super then None
             else if ctrl then
               (let keyname = getKeyName key scancode
                in if keyname = '''' then None else Some (keycode_of mods keyname))
             else Some (keycode_of mods ''''))"

text \<open>The second half: the \<open>switch\<close> on the token, and the call of \<open>nvim.Input\<close> after it.\<close>

definition key_bindings :: "input_state \<Rightarrow> string \<Rightarrow> input_state \<times> input_effect list" where
  "key_bindings st keycode =
     (if keycode = zoomInKey st then (st, [IncreaseFontSize])
      else if keycode = zoomOutKey st then (st, [DecreaseFontSize])
      else if keycode = toggleFullscreenKey st then (st, [ToggleFullscreen])
      else if keycode = ''<ESC>'' then
        (if popupMenuEnabled st
         then (st\<lparr> popupMenuVisible := False \<rparr>, [PopupMenuHide, NvimInput keycode])
         else (st, [NvimInput keycode]))
      else (st, [NvimInput keycode]))"

definition KeyEventHandler ::
  "(glfw_key \<Rightarrow> int \<Rightarrow> string) \<Rightarrow> input_state \<Rightarrow> glfw_key \<Rightarrow> int \<Rightarrow> glfw_action \<Rightarrow> int
     \<Rightarrow> input_state \<times> input_effect list" where
  "KeyEventHandler getKeyName st key scancode action mods =
     (case ModifierKeys key of
        Some code \<Rightarrow>
          if action = Press then
            (if code \<notin> set (lastMouseModifiers st)
             then (st\<lparr> lastMouseModifiers := lastMouseModifiers st @ [code] \<rparr>, [])
             else (st, []))
          else if action = Release \<and> lastMouseModifiers st \<noteq> ''''
          then (st\<lparr> lastMouseModifiers := remove1 code (lastMouseModifiers st) \<rparr>, [])
          else (st, [])
      | None \<Rightarrow>
          if action \<noteq> Release then
            (case key_token getKeyName key scancode mods of
               None \<Rightarrow> (st, [])
             | Some keycode \<Rightarrow> key_bindings st keycode)
          else (st, []))"

text \<open>The tokens that a list of effects forwards to the backend.\<close>

fun forwarded :: "input_effect list \<Rightarrow> string list" where
  "forwarded [] = []"
| "forwarded (NvimInput k # es) = k # forwarded es"
| "forwarded (_ # es) = forwarded es"

text \<open>A platform lookup for the concrete checks: the key with code 65 is named \<open>a\<close>.\<close>

definition sample_key_name :: "glfw_key \<Rightarrow> int \<Rightarrow> string" where
  "sample_key_name key scancode = (if key = KeyOther 65 then ''a'' else '''')"

section \<open>Theorems\<close>

subsection \<open>Buffer uploads\<close>

text \<open>
  Claim C6. For two consecutive uploads to the same buffer, the second one is decided by
  the element counts alone: with equal counts it is an in-place \<open>BufferSubData\<close> and the
  recorded length stays, with differing counts it is a \<open>BufferData\<close> reallocation and the
  recorded length becomes the new count. This holds from every renderer state, for the
  vertex buffer and for the element buffer.
\<close>

theorem consecutive_uploads_realloc_iff_count_differs:
  fixes d1 d2 :: "'a list" and e1 e2 :: "'b list"
  shows
  "(let s1 = RGL_UpdateVertexData s d1; s2 = RGL_UpdateVertexData s1 d2 in
      rgl_vertex_buffer_len s1 = len d1 \<and> rgl_vertex_buffer_len s2 = len d2 \<and>
      (length d2 = length d1 \<longrightarrow>
         gl_trace s2 = gl_trace s1 @ [BufferSubData ARRAY_BUFFER 0 (len d2 * VertexStructSize)] \<and>
         is_patch (last_call s2) \<and> \<not> is_realloc (last_call s2)) \<and>
      (length d2 \<noteq> length d1 \<longrightarrow>
         gl_trace s2 = gl_trace s1 @ [BufferData ARRAY_BUFFER (len d2 * VertexStructSize)] \<and>
         is_realloc (last_call s2)))
   \<and>
   (let t1 = RGL_UpdateElementData s e1; t2 = RGL_UpdateElementData t1 e2 in
      rgl_element_buffer_len t1 = len e1 \<and> rgl_element_buffer_len t2 = len e2 \<and>
      (length e2 = length e1 \<longrightarrow>
         gl_trace t2 = gl_trace t1 @ [BufferSubData ELEMENT_ARRAY_BUFFER 0 (len e2 * 4)] \<and>
         is_patch (last_call t2) \<and> \<not> is_realloc (last_call t2)) \<and>
      (length e2 \<noteq> length e1 \<longrightarrow>
         gl_trace t2 = gl_trace t1 @ [BufferData ELEMENT_ARRAY_BUFFER (len e2 * 4)] \<and>
         is_realloc (last_call t2)))"
  by (simp add: RGL_UpdateVertexData_def RGL_UpdateElementData_def Let_def len_def last_call_def)

theorem consecutive_uploads_witness:
  "(let s = \<lparr> rgl_vertex_buffer_len = 0, rgl_element_buffer_len = 0, gl_trace = [] \<rparr>;
        s1 = RGL_UpdateVertexData s [1, 2, 3, 4 :: nat];
        s2 = RGL_UpdateVertexData s1 [5, 6, 7, 8 :: nat];
        t1 = RGL_UpdateElementData s [0, 1, 2, 2, 3, 0 :: nat];
        t2 = RGL_UpdateElementData t1 [0, 1, 2 :: nat]
    in length [5, 6, 7, 8 :: nat] = length [1, 2, 3, 4 :: nat] \<and>
       gl_trace s2 = [BufferData ARRAY_BUFFER 144, BufferSubData ARRAY_BUFFER 0 144] \<and>
       length [0, 1, 2 :: nat] \<noteq> length [0, 1, 2, 2, 3, 0 :: nat] \<and>
       gl_trace t2 = [BufferData ELEMENT_ARRAY_BUFFER 24, BufferData ELEMENT_ARRAY_BUFFER 12])"
  using consecutive_uploads_realloc_iff_count_differs
    [of "\<lparr> rgl_vertex_buffer_len = 0, rgl_element_buffer_len = 0, gl_trace = [] \<rparr>"
        "[1, 2, 3, 4 :: nat]" "[5, 6, 7, 8 :: nat]"
        "[0, 1, 2, 2, 3, 0 :: nat]" "[0, 1, 2 :: nat]"]
  by (simp add: RGL_UpdateVertexData_def RGL_UpdateElementData_def Let_def len_def
      VertexStructSize_def)

subsection \<open>Version check\<close>

text \<open>
  Claim C9. The claim compares the whole version triple with 0.4.0; the code compares the
  minor number alone. The backend version 1.0.0 is not below 0.4.0, and the handshake
  fails fatally on it. In general the fatal line is logged exactly when the minor number
  is below 4, whatever the major number.
\<close>

theorem requestApiInfo_rejects_1_0_0:
  "fails_fatally (requestApiInfo (Some (1, 0, 0))) \<and> \<not> version_below (1, 0, 0) (0, 4, 0)
   \<and> fails_fatally (requestApiInfo (Some (vMajor, vMinor, vPatch))) = (vMinor < 4)"
  by (simp add: requestApiInfo_def fails_fatally_def)

subsection \<open>Machine identity\<close>

lemma mac_loop_foldl: "mac_loop m j bs = foldl mac_step m (take (8 - j) bs)"
proof (induction m j bs rule: mac_loop.induct)
  case (1 m j)
  show ?case by simp
next
  case (2 m j b bs)
  show ?case
  proof (cases "j \<ge> 8")
    case True
    then show ?thesis by simp
  next
    case False
    then have "8 - j = Suc (8 - Suc j)" by simp
    with 2 False show ?thesis by (simp add: mac_step_def)
  qed
qed

lemma unat_byte: "unat (b :: 8 word) < 256"
  using unsigned_less[of b, where ?'a = nat] by simp

lemma unat_ucast_byte: "unat (ucast (b :: 8 word) :: 64 word) = unat b"
proof -
  have "unat b < 2 ^ 64" using unat_byte[of b] by simp
  then show ?thesis by (simp add: unsigned_ucast_eq take_bit_nat_eq_self)
qed

lemma unat_mac_step: "unat (mac_step m b) = (unat m * 256 + unat b) mod 2 ^ 64"
  by (simp add: mac_step_def unat_word_ariths push_bit_eq_mult mod_simps unat_ucast_byte)

lemma big_endian_bound: "big_endian bs < 256 ^ length bs"
proof (induction bs rule: rev_induct)
  case Nil
  show ?case by (simp add: big_endian_def)
next
  case (snoc b bs)
  with unat_byte[of b] show ?case by (simp add: big_endian_def)
qed

lemma unat_foldl_mac_step:
  "length bs \<le> 8 \<Longrightarrow> unat (foldl mac_step 0 bs) = big_endian bs"
proof (induction bs rule: rev_induct)
  case Nil
  show ?case by (simp add: big_endian_def)
next
  case (snoc b bs)
  then have IH: "unat (foldl mac_step 0 bs) = big_endian bs" and L: "length bs \<le> 7"
    by simp_all
  have "big_endian bs < 256 ^ length bs" by (rule big_endian_bound)
  also have "\<dots> \<le> (256::nat) ^ 7" using L by (intro power_increasing) simp_all
  finally have N: "big_endian bs < 256 ^ 7" .
  have "unat (mac_step (foldl mac_step 0 bs) b) = (big_endian bs * 256 + unat b) mod 2 ^ 64"
    by (simp add: unat_mac_step IH)
  also have "\<dots> = big_endian bs * 256 + unat b" using N unat_byte[of b] by simp
  finally show ?case by (simp add: big_endian_def)
qed

lemma unat_mac_loop: "unat (mac_loop 0 0 bs) = big_endian (take 8 bs)"
  by (simp add: mac_loop_foldl unat_foldl_mac_step)

lemma octet_bit1: "(b AND 2 = 2) = bit (b :: 8 word) 1"
proof
  assume "b AND 2 = 2"
  then have "bit (b AND 2) 1 = bit (2 :: 8 word) 1" by simp
  then show "bit b 1" by (simp add: bit_and_iff bit_2_iff)
next
  assume B: "bit b 1"
  show "b AND 2 = 2"
  proof (rule bit_eqI)
    fix n
    show "bit (b AND 2) n = bit (2 :: 8 word) n"
      using B by (simp add: bit_and_iff bit_2_iff) blast
  qed
qed

lemma flag_up_bit0: "(f AND FlagUp \<noteq> 0) = bit (f :: 32 word) 0"
  using and_exp_eq_0_iff_not_bit[of f 0] by (simp add: FlagUp_def)

lemma interfaces_loop_find:
  "unat (interfaces_loop ifs) =
     (case find usable ifs of None \<Rightarrow> 0 | Some i \<Rightarrow> big_endian (take 8 (HardwareAddr i)))"
proof (induction ifs)
  case Nil
  show ?case by simp
next
  case (Cons i rest)
  show ?case
  proof (cases "usable i")
    case True
    then show ?thesis
      by (simp add: usable_def flag_up_bit0 octet_bit1 unat_mac_loop)
  next
    case False
    then have "interfaces_loop (i # rest) = interfaces_loop rest"
      by (auto simp add: usable_def flag_up_bit0 octet_bit1)
    with False Cons show ?thesis by simp
  qed
qed

text \<open>
  Claim C5. \<open>getMacAddress\<close> returns 0 when the interface list cannot be obtained or no
  interface qualifies; otherwise its value, read as an unsigned number, is the big-endian
  value of the first 8 hardware-address bytes of the first interface that is up, has a
  non-empty address and whose first octet has bit 1 (value 2) clear. No wrap-around
  occurs, so the 64-bit result is that number itself.
\<close>

theorem getMacAddress_first_usable_big_endian:
  "getMacAddress None = 0 \<and>
   unat (getMacAddress (Some ifs)) =
     (case find usable ifs of
        None \<Rightarrow> 0
      | Some i \<Rightarrow> big_endian (take 8 (HardwareAddr i))) \<and>
   big_endian (take 8 bs) < 2 ^ 64"
proof -
  have "big_endian (take 8 bs) < 256 ^ length (take 8 bs)" by (rule big_endian_bound)
  also have "\<dots> \<le> (256::nat) ^ 8" by (intro power_increasing) simp_all
  finally have "big_endian (take 8 bs) < 2 ^ 64" by simp
  then show ?thesis by (simp add: getMacAddress_def interfaces_loop_find)
qed

text \<open>
  A machine with a loopback interface, an interface that is up with a locally
  administered address, and a network card: the identity is the card's address.
\<close>

lemma getMacAddress_example:
  "getMacAddress (Some
     [\<lparr> Flags = 5, HardwareAddr = [] \<rparr>,
      \<lparr> Flags = 19, HardwareAddr = [0x02, 0x42, 0xAC, 0x11, 0x00, 0x02] \<rparr>,
      \<lparr> Flags = 19, HardwareAddr = [0x00, 0x1A, 0x2B, 0x3C, 0x4D, 0x5E] \<rparr>])
   = 0x001A2B3C4D5E"
  by (simp add: getMacAddress_def FlagUp_def)

subsection \<open>The JSON encoding\<close>

lemmas msg_type_defs = IPC_MSG_TYPE_OK_def IPC_MSG_TYPE_CLOSE_CONN_def IPC_MSG_TYPE_OPEN_FILE_def
  IPC_MSG_TYPE_GOTO_LINE_def IPC_MSG_TYPE_GOTO_COLUMN_def






lemma coerce_from_numeral:
  "coerce_from (numeral n) (a # s) = a # coerce_from (pred_numeral n) s"
  by (simp add: numeral_eq_Suc)

lemma valid_from_numeral:
  "valid_from (numeral n) (a # s) = valid_from (pred_numeral n) s"
  by (simp add: numeral_eq_Suc)

lemmas utf8_eval = coerce_utf8_def valid_utf8_def rune_size_def in_range_def replacement_char_def
  coerce_from_numeral valid_from_numeral

text \<open>
  Plain ASCII and well-formed sequences pass unchanged; a byte that starts no well-formed
  sequence (\<open>0xFF\<close>, or the first two bytes of a three-byte sequence cut short) is
  replaced by U+FFFD; an encoded surrogate is not well-formed.
\<close>

lemma coerce_utf8_examples:
  "coerce_utf8 ''foo.txt'' = ''foo.txt'' \<and>
   coerce_utf8 [CHR 0xFF, CHR ''a'', CHR 0xC3, CHR 0xA9, CHR 0xE2, CHR 0x82]
     = [CHR 0xEF, CHR 0xBF, CHR 0xBD, CHR ''a'', CHR 0xC3, CHR 0xA9,
        CHR 0xEF, CHR 0xBF, CHR 0xBD, CHR 0xEF, CHR 0xBF, CHR 0xBD] \<and>
   coerce_utf8 [CHR 0xEF, CHR 0xBF, CHR 0xBD] = [CHR 0xEF, CHR 0xBF, CHR 0xBD] \<and>
   valid_utf8 ''foo.txt'' \<and> \<not> valid_utf8 [CHR 0xFF, CHR 0xFE] \<and>
   valid_utf8 [CHR 0x7F] \<and> \<not> valid_utf8 [CHR 0x80] \<and>
   \<not> valid_utf8 [CHR 0xC1, CHR 0x80] \<and> valid_utf8 [CHR 0xC2, CHR 0x80] \<and>
   valid_utf8 [CHR 0xDF, CHR 0xBF] \<and> \<not> valid_utf8 [CHR 0xC2, CHR 0x7F] \<and>
   \<not> valid_utf8 [CHR 0xC2, CHR 0xC0] \<and> \<not> valid_utf8 [CHR 0xC2] \<and>
   \<not> valid_utf8 [CHR 0xE0, CHR 0x9F, CHR 0x80] \<and> valid_utf8 [CHR 0xE0, CHR 0xA0, CHR 0x80] \<and>
   valid_utf8 [CHR 0xE2, CHR 0x82, CHR 0xAC] \<and> \<not> valid_utf8 [CHR 0xE2, CHR 0x82] \<and>
   valid_utf8 [CHR 0xED, CHR 0x9F, CHR 0xBF] \<and> \<not> valid_utf8 [CHR 0xED, CHR 0xA0, CHR 0x80] \<and>
   valid_utf8 [CHR 0xEF, CHR 0xBF, CHR 0xBF] \<and> \<not> valid_utf8 [CHR 0xE1, CHR 0x80, CHR 0xC0] \<and>
   \<not> valid_utf8 [CHR 0xF0, CHR 0x8F, CHR 0x80, CHR 0x80] \<and>
   valid_utf8 [CHR 0xF0, CHR 0x90, CHR 0x80, CHR 0x80] \<and>
   valid_utf8 [CHR 0xF0, CHR 0x9F, CHR 0x98, CHR 0x80] \<and>
   valid_utf8 [CHR 0xF4, CHR 0x8F, CHR 0xBF, CHR 0xBF] \<and>
   \<not> valid_utf8 [CHR 0xF4, CHR 0x90, CHR 0x80, CHR 0x80] \<and>
   \<not> valid_utf8 [CHR 0xF5, CHR 0x80, CHR 0x80, CHR 0x80] \<and>
   \<not> valid_utf8 [CHR 0xF1, CHR 0x80, CHR 0x80] \<and>
   \<not> valid_utf8 [CHR 0xF1, CHR 0x80, CHR 0x80, CHR 0x7F] \<and> \<not> valid_utf8 [CHR 0xC0, CHR 0x80]"
  by (simp add: utf8_eval)


lemma decode_uint64_of_nat:
  "n < 2 ^ 64 \<Longrightarrow> decode_uint64 (real n) = Some (word_of_nat n)"
  by (simp add: decode_uint64_def)

lemma decode_mac: "decode_uint64 (unsigned (m :: 64 word)) = Some m"
  using decode_uint64_of_nat[of "unat m"] unsigned_less[of m, where ?'a = nat] by simp

lemma decode_type:
  "- (2 ^ 63) \<le> t \<Longrightarrow> t < 2 ^ 63 \<Longrightarrow> decode_int (of_int t) = Some t"
  by (simp add: decode_int_def)

lemma json_Unmarshal_sample:
  "- (2 ^ 63) \<le> t \<Longrightarrow> t < 2 ^ 63 \<Longrightarrow>
   json_Unmarshal (sample_msg t m args) =
     Some \<lparr> MsgType = t, MacAddress = m, Args = map (unmarshal_value \<circ> marshal_value) args \<rparr>"
  by (simp add: sample_msg_def json_Unmarshal_def decode_member_def zero_call_def decode_mac
      decode_type)

lemma json_Marshal_sample: "json_Marshal c = Some (sample_msg (MsgType c) (MacAddress c) (Args c))"
  by (simp add: json_Marshal_def sample_msg_def)


text \<open>
  The decoder on objects that \<open>json.Marshal\<close> does not write: the later of two members of
  one name counts, \<open>null\<close> leaves a number field as it is and empties \<open>Args\<close>, a member of
  another name is skipped, a string in a number field and a fraction are errors, \<open>null\<close>
  for the object gives the zero value, and a string is decoded with its ill-formed bytes
  replaced.
\<close>

lemma json_Unmarshal_examples:
  "json_Unmarshal (JObject [(''MsgType'', JNumber 3), (''MsgType'', JNumber 2)])
     = Some \<lparr> MsgType = 2, MacAddress = 0, Args = [] \<rparr> \<and>
   json_Unmarshal (JObject [(''MsgType'', JNumber 3), (''MsgType'', JNull), (''Other'', JBool True),
                            (''Args'', JArray [JNumber 1]), (''Args'', JNull)])
     = Some \<lparr> MsgType = 3, MacAddress = 0, Args = [] \<rparr> \<and>
   json_Unmarshal (JObject [(''MacAddress'', JNumber 7), (''Args'', JArray [JString [CHR 0xFF]])])
     = Some \<lparr> MsgType = 0, MacAddress = 7, Args = [GoString [CHR 0xEF, CHR 0xBF, CHR 0xBD]] \<rparr> \<and>
   json_Unmarshal (JObject [(''MsgType'', JString ''2'')]) = None \<and>
   json_Unmarshal (JObject [(''MsgType'', JNumber (1 / 2))]) = None \<and>
   json_Unmarshal (JObject [(''MacAddress'', JNumber (- 1))]) = None \<and>
   json_Unmarshal JNull = Some \<lparr> MsgType = 0, MacAddress = 0, Args = [] \<rparr> \<and>
   json_Unmarshal (JArray []) = None"
  by (simp add: json_Unmarshal_def decode_member_def zero_call_def decode_int_def
      decode_uint64_def utf8_eval)




subsection \<open>The client's call\<close>

text \<open>
  Claim C2. \<open>Call\<close> returns false when encoding, the write, the read or decoding fails.
  For a decoded reply: false when its machine identity differs from the client's; with
  the client's identity, true and the connection closed for a CLOSE reply, true for an OK
  reply, false for every other reply type.
\<close>

theorem Call_outcome:
  "(let R = Call cd m t args write_ok resp;
        enc = Marshal cd \<lparr> MsgType = t, MacAddress = m, Args = args \<rparr> in
    (enc = None \<longrightarrow> \<not> returned R) \<and>
    (\<not> write_ok \<longrightarrow> \<not> returned R) \<and>
    (resp = ReadError \<longrightarrow> \<not> returned R) \<and>
    (\<forall>data. resp = ReadOk data \<and> Unmarshal cd data = None \<longrightarrow> \<not> returned R) \<and>
    (\<forall>data reply.
       enc \<noteq> None \<and> write_ok \<and> resp = ReadOk data \<and> Unmarshal cd data = Some reply \<longrightarrow>
       (MacAddress reply \<noteq> m \<longrightarrow> \<not> returned R \<and> \<not> client_closed R) \<and>
       (MacAddress reply = m \<and> MsgType reply = IPC_MSG_TYPE_CLOSE_CONN \<longrightarrow>
          returned R \<and> client_closed R) \<and>
       (MacAddress reply = m \<and> MsgType reply = IPC_MSG_TYPE_OK \<longrightarrow>
          returned R \<and> \<not> client_closed R) \<and>
       (MacAddress reply = m \<and> MsgType reply \<noteq> IPC_MSG_TYPE_CLOSE_CONN \<and>
        MsgType reply \<noteq> IPC_MSG_TYPE_OK \<longrightarrow> \<not> returned R)))"
  by (auto simp add: Call_def call_end_def Let_def msg_type_defs
      split: option.splits read_result.splits)

lemma json_Unmarshal_string: "json_Unmarshal (JString s) = None"
  by (simp add: json_Unmarshal_def)

theorem Call_outcome_witness:
  "returned (sample_call 7 (ReadOk (sample_msg IPC_MSG_TYPE_OK 7 [])) True) \<and>
   \<not> returned (sample_call 7 (ReadOk (sample_msg IPC_MSG_TYPE_OK 8 [])) True) \<and>
   returned (sample_call 7 (ReadOk (sample_msg IPC_MSG_TYPE_CLOSE_CONN 7 [])) True) \<and>
   client_closed (sample_call 7 (ReadOk (sample_msg IPC_MSG_TYPE_CLOSE_CONN 7 [])) True) \<and>
   \<not> returned (sample_call 7 (ReadOk (sample_msg IPC_MSG_TYPE_GOTO_LINE 7 [])) True) \<and>
   \<not> returned (sample_call 7 (ReadOk (JString ''x'')) True) \<and>
   \<not> returned (sample_call 7 ReadError True) \<and>
   \<not> returned (sample_call 7 (ReadOk (sample_msg IPC_MSG_TYPE_OK 7 [])) False)"
  using
    Call_outcome [of json_codec 7 IPC_MSG_TYPE_OPEN_FILE "[GoString ''foo.txt'']" True
                     "ReadOk (sample_msg IPC_MSG_TYPE_OK 7 [])"]
    Call_outcome [of json_codec 7 IPC_MSG_TYPE_OPEN_FILE "[GoString ''foo.txt'']" True
                     "ReadOk (sample_msg IPC_MSG_TYPE_OK 8 [])"]
    Call_outcome [of json_codec 7 IPC_MSG_TYPE_OPEN_FILE "[GoString ''foo.txt'']" True
                     "ReadOk (sample_msg IPC_MSG_TYPE_CLOSE_CONN 7 [])"]
    Call_outcome [of json_codec 7 IPC_MSG_TYPE_OPEN_FILE "[GoString ''foo.txt'']" True
                     "ReadOk (sample_msg IPC_MSG_TYPE_GOTO_LINE 7 [])"]
    Call_outcome [of json_codec 7 IPC_MSG_TYPE_OPEN_FILE "[GoString ''foo.txt'']" True
                     "ReadOk (JString ''x'')"]
    Call_outcome [of json_codec 7 IPC_MSG_TYPE_OPEN_FILE "[GoString ''foo.txt'']" True ReadError]
    Call_outcome [of json_codec 7 IPC_MSG_TYPE_OPEN_FILE "[GoString ''foo.txt'']" False
                     "ReadOk (sample_msg IPC_MSG_TYPE_OK 7 [])"]
  by (simp add: sample_call_def json_codec_def json_Marshal_sample json_Unmarshal_sample
      json_Unmarshal_string msg_type_defs Let_def)

subsection \<open>The server's reader\<close>

lemma reader_turn_read_error:
  "reader_turn cd ok cl r ReadError w = logw LEVEL_WARN ''Failed to read client data:'' r"
  by (simp add: reader_turn_def)

lemma reader_turn_listening:
  "listening (server (reader_turn cd ok cl r rd w)) = listening (server r)"
  by (simp add: reader_turn_def logw_def finish_def appendNewCall_def Let_def
      split: read_result.splits option.splits)

lemma reader_loop_read_errors:
  "\<forall>e \<in> set evs. fst e = ReadError \<Longrightarrow> \<not> ended r \<Longrightarrow>
   reader_loop cd ok cl r evs =
     r\<lparr> server_log := server_log r @
          replicate (length evs) (LEVEL_WARN, ''Failed to read client data:'') \<rparr>"
proof (induction evs arbitrary: r)
  case Nil
  show ?case by simp
next
  case (Cons e evs)
  obtain rd w where e: "e = (rd, w)" by (cases e)
  with Cons.prems have rd: "rd = ReadError" by simp
  let ?r' = "logw LEVEL_WARN ''Failed to read client data:'' r"
  have ne: "\<not> ended ?r'" using Cons.prems by (simp add: logw_def)
  have "reader_loop cd ok cl r (e # evs) = reader_loop cd ok cl ?r' evs"
    using ne by (simp add: e rd reader_turn_read_error)
  also have "\<dots> = ?r'\<lparr> server_log := server_log ?r' @
          replicate (length evs) (LEVEL_WARN, ''Failed to read client data:'') \<rparr>"
    using Cons.prems ne by (intro Cons.IH) simp_all
  finally show ?case by (simp add: logw_def replicate_append_same)
qed



lemma reader_turn_enqueue:
  "Unmarshal cd data = Some fc \<Longrightarrow> MacAddress fc = mac (server r) \<Longrightarrow>
   MsgType fc \<noteq> IPC_MSG_TYPE_CLOSE_CONN \<Longrightarrow>
   reader_turn cd ok cl r (ReadOk data) w =
     (let r2 = r\<lparr> server := appendNewCall (server r) fc, written := written r @ [ok] \<rparr>
      in if w then r2 else logw LEVEL_WARN ''Failed to send response to client.'' r2)"
  by (simp add: reader_turn_def Let_def logw_def)

text \<open>
  Claim C3, as amended. A failed read on an accepted connection is logged and the reader
  starts its next turn: after any number of failed reads the reader has not returned, the
  connection is not closed, and the server record and the replies written are unchanged.
  A failed write of the reply to an identity-matching message is logged as well and
  leaves the reader running and the connection open. No turn of a reader touches the
  listener, so the server and its listener keep running.
\<close>

theorem reader_goes_on_after_transport_errors:
  "reader_turn cd ok cl r ReadError w = logw LEVEL_WARN ''Failed to read client data:'' r \<and>
   ((\<forall>e \<in> set evs. fst e = ReadError) \<and> \<not> ended r \<longrightarrow>
      (let r' = reader_loop cd ok cl r evs in
         \<not> ended r' \<and> conn_closed r' = conn_closed r \<and> server r' = server r \<and>
         written r' = written r \<and>
         server_log r' = server_log r @
           replicate (length evs) (LEVEL_WARN, ''Failed to read client data:''))) \<and>
   (Unmarshal cd data = Some fc \<and> MacAddress fc = mac (server r) \<longrightarrow>
      (let r' = reader_turn cd ok cl r (ReadOk data) False in
         ended r' = ended r \<and> conn_closed r' = conn_closed r \<and>
         last (server_log r') = (LEVEL_WARN, ''Failed to send response to client.''))) \<and>
   listening (server (reader_turn cd ok cl r rd w)) = listening (server r)"
  by (simp add: reader_turn_read_error reader_loop_read_errors reader_turn_listening Let_def)
     (simp add: reader_turn_def logw_def Let_def)

theorem reader_goes_on_witness:
  "server_log (sample_loop sample_reader [(ReadError, True), (ReadError, False)])
     = [(LEVEL_WARN, ''Failed to read client data:''), (LEVEL_WARN, ''Failed to read client data:'')] \<and>
   \<not> ended (sample_loop sample_reader [(ReadError, True), (ReadError, False)]) \<and>
   last (server_log (sample_turn sample_reader (ReadOk (sample_msg IPC_MSG_TYPE_CLOSE_CONN 7 [])) False))
     = (LEVEL_WARN, ''Failed to send response to client.'')"
  using
    reader_goes_on_after_transport_errors
      [of json_codec "sample_msg IPC_MSG_TYPE_OK 7 []" "sample_msg IPC_MSG_TYPE_CLOSE_CONN 7 []"
          sample_reader True "[(ReadError, True), (ReadError, False)]"
          "sample_msg IPC_MSG_TYPE_CLOSE_CONN 7 []"
          "\<lparr> MsgType = IPC_MSG_TYPE_CLOSE_CONN, MacAddress = 7, Args = [] \<rparr>" ReadError]
  by (simp add: sample_loop_def sample_turn_def sample_reader_def new_reader_def
      sample_server_def json_codec_def json_Unmarshal_sample reader_turn_def logw_def finish_def
      msg_type_defs Let_def)

text \<open>
  Claim C3 as stated fails: after three failed reads the reader has not terminated and
  the connection is not closed; the same holds after a failed write of the CLOSE reply
  and after a failed write of the OK reply.
\<close>

theorem reader_not_dropped_on_failed_read_or_write:
  "\<not> ended (sample_loop sample_reader [(ReadError, True), (ReadError, True), (ReadError, True)]) \<and>
   \<not> conn_closed (sample_loop sample_reader [(ReadError, True), (ReadError, True), (ReadError, True)]) \<and>
   \<not> ended (sample_turn sample_reader (ReadOk (sample_msg IPC_MSG_TYPE_CLOSE_CONN 7 [])) False) \<and>
   \<not> conn_closed (sample_turn sample_reader (ReadOk (sample_msg IPC_MSG_TYPE_CLOSE_CONN 7 [])) False) \<and>
   \<not> ended (sample_turn sample_reader
        (ReadOk (sample_msg IPC_MSG_TYPE_OPEN_FILE 7 [GoString ''foo.txt''])) False) \<and>
   \<not> conn_closed (sample_turn sample_reader
        (ReadOk (sample_msg IPC_MSG_TYPE_OPEN_FILE 7 [GoString ''foo.txt''])) False)"
  by (simp add: sample_loop_def sample_turn_def sample_reader_def new_reader_def
      sample_server_def json_codec_def json_Unmarshal_sample reader_turn_def logw_def finish_def
      appendNewCall_def msg_type_defs Let_def)

subsection \<open>A request over a connection\<close>


lemma reader_loop_single:
  "reader_loop cd ok cl r [(rd, w)] = reader_turn cd ok cl r rd w"
  by (simp add: Let_def)


lemmas text_eval = text_Marshal_def text_Unmarshal_def parse_args_def parse_nat_def is_digit_def
  strip_suffix_def plain_def dec.simps

text \<open>
  The sample codec writes the text that \<open>json.Marshal\<close> writes, refuses what it does not
  cover, and reads that text back; a text cut short, a text that starts in the middle and
  a number beyond 64 bits or with a leading zero are decoding errors.
\<close>

lemma plain_examples:
  "plain CHR ''a'' \<and> plain CHR '' '' \<and> plain CHR ''~'' \<and> \<not> plain CHR 0x1F \<and> \<not> plain CHR 0x7F \<and>
   \<not> plain CHR 0x22 \<and> \<not> plain CHR 0x5C \<and> \<not> plain CHR ''<'' \<and> \<not> plain CHR ''>'' \<and>
   \<not> plain CHR ''&'' \<and>
   is_digit CHR ''0'' \<and> is_digit CHR ''9'' \<and> \<not> is_digit CHR ''/'' \<and> \<not> is_digit CHR '':''"
  by (simp add: plain_def is_digit_def)



lemma text_Unmarshal_range:
  \<open>text_Unmarshal ''{"MsgType":4,"MacAddress":18446744073709551615,"Args":[]}''
     = Some \<lparr> MsgType = 4, MacAddress = 18446744073709551615, Args = [] \<rparr> \<and>
   text_Unmarshal ''{"MsgType":4,"MacAddress":18446744073709551616,"Args":null}'' = None \<and>
   text_Unmarshal ''{"MsgType":9223372036854775808,"MacAddress":7,"Args":null}'' = None \<and>
   text_Unmarshal ''{"MsgType":,"MacAddress":7,"Args":null}'' = None \<and>
   text_Unmarshal ''{"MsgType":02,"MacAddress":7,"Args":null}'' = None \<and>
   text_Unmarshal (''{"MsgType":2,"MacAddress":7,"Args":["a'' @ [CHR 0x5C] @ ''"]}'') = None\<close>
  by (simp add: text_eval)






text \<open>
  Without the encoded replies there is no reader: a client whose call was written then
  waits for ever. A call that cannot be encoded returns false before anything is written.
\<close>

lemma request_without_replies:
  "Marshal tc \<lparr> MsgType = t, MacAddress = m, Args = args \<rparr> = Some req \<Longrightarrow>
   Marshal tc \<lparr> MsgType = IPC_MSG_TYPE_OK, MacAddress = mac (server s), Args = [] \<rparr> = None \<Longrightarrow>
   mainLoop_reader tc s evs = None \<and> request tc s m t args = (None, s)"
  by (simp add: request_def mainLoop_reader_def encodedReplies_def)

lemma request_unencodable:
  "Marshal tc \<lparr> MsgType = t, MacAddress = m, Args = args \<rparr> = None \<Longrightarrow>
   request tc s m t args
     = (Some \<lparr> returned = False, sent = [], client_closed = False,
               client_log = [(LEVEL_DEBUG, ''Sending signal:''),
                             (LEVEL_WARN, ''Failed to encode function call:'')] \<rparr>,
        s)"
  by (simp add: request_def Call_def call_end_def)




subsection \<open>Dispatch of queued calls\<close>

lemma dispatch_panics: "(\<exists>p. dispatch c = Inl p) = (\<not> args_expected c)"
  by (auto simp add: dispatch_def args_expected_def msg_type_defs
      split: list.splits go_value.splits)

lemma dispatch_all_panics: "(\<exists>p. dispatch_all cs = Inl p) = (\<exists>c \<in> set cs. \<not> args_expected c)"
proof (induction cs)
  case Nil
  show ?case by simp
next
  case (Cons c cs)
  show ?case
  proof (cases "dispatch c")
    case (Inl p)
    then have "\<not> args_expected c" using dispatch_panics[of c] by auto
    with Inl show ?thesis by auto
  next
    case (Inr op)
    then have "args_expected c" using dispatch_panics[of c] by auto
    with Inr Cons show ?thesis by (auto split: sum.splits)
  qed
qed

lemma update_panics:
  "(\<exists>p. update s = Inl p) = (callsAvailable s \<and> (\<exists>c \<in> set (calls s). \<not> args_expected c))"
  using dispatch_all_panics[of "calls s"]
  by (auto simp add: update_def split: sum.splits)

text \<open>
  Claim C10. \<open>update\<close> panics exactly when calls are available and some queued record
  lacks the expected first argument: a string for OPEN_FILE, a float64 for GOTO_LINE and
  GOTO_COLUMN. The reader enqueues every identity-matching message that is not CLOSE as
  it was decoded, whatever its arguments, so a message without the expected argument
  reaches the queue and makes the next \<open>update\<close> panic.
\<close>

theorem update_panic_free_iff_args_expected:
  "((\<exists>p. update s = Inl p) = (callsAvailable s \<and> (\<exists>c \<in> set (calls s). \<not> args_expected c))) \<and>
   (Unmarshal cd data = Some fc \<and> MacAddress fc = mac (server r) \<and>
    MsgType fc \<noteq> IPC_MSG_TYPE_CLOSE_CONN \<longrightarrow>
      (let s' = server (reader_turn cd ok cl r (ReadOk data) w) in
         calls s' = calls (server r) @ [fc] \<and> callsAvailable s' \<and>
         (\<not> args_expected fc \<longrightarrow> (\<exists>p. update s' = Inl p))))"
  by (simp add: update_panics reader_turn_enqueue Let_def appendNewCall_def logw_def)

theorem update_panic_free_witness:
  "update \<lparr> mac = 7, callsAvailable = True,
            calls = [\<lparr> MsgType = IPC_MSG_TYPE_OPEN_FILE, MacAddress = 7, Args = [GoString ''foo.txt''] \<rparr>,
                     \<lparr> MsgType = IPC_MSG_TYPE_GOTO_LINE, MacAddress = 7, Args = [GoFloat64 12] \<rparr>],
            listening = True \<rparr>
     = Inr (\<lparr> mac = 7, callsAvailable = False, calls = [], listening = True \<rparr>,
            [openFile ''foo.txt'', gotoLine 12, windowRaise]) \<and>
   update (server (sample_turn sample_reader (ReadOk (sample_msg IPC_MSG_TYPE_OPEN_FILE 7 [])) True))
     = Inl IndexOutOfRange \<and>
   update (server (sample_turn sample_reader
       (ReadOk (sample_msg IPC_MSG_TYPE_GOTO_LINE 7 [GoString ''12''])) True))
     = Inl TypeAssertion"
  using
    update_panic_free_iff_args_expected
      [of "\<lparr> mac = 7, callsAvailable = True,
            calls = [\<lparr> MsgType = IPC_MSG_TYPE_OPEN_FILE, MacAddress = 7, Args = [GoString ''foo.txt''] \<rparr>,
                     \<lparr> MsgType = IPC_MSG_TYPE_GOTO_LINE, MacAddress = 7, Args = [GoFloat64 12] \<rparr>],
            listening = True \<rparr>"
          json_codec "sample_msg IPC_MSG_TYPE_OPEN_FILE 7 []"
          "\<lparr> MsgType = IPC_MSG_TYPE_OPEN_FILE, MacAddress = 7, Args = [] \<rparr>"
          sample_reader "sample_msg IPC_MSG_TYPE_OK 7 []" "sample_msg IPC_MSG_TYPE_CLOSE_CONN 7 []" True]
  by (simp add: update_def dispatch_def go_int_def sample_turn_def sample_reader_def
      new_reader_def sample_server_def json_codec_def json_Unmarshal_sample reader_turn_def
      appendNewCall_def msg_type_defs Let_def)

subsection \<open>Key input\<close>

lemmas mod_defs = ModShift_def ModControl_def ModAlt_def ModSuper_def

lemma forwarded_key_bindings:
  "forwarded (snd (key_bindings st k)) =
     (if k = zoomInKey st \<or> k = zoomOutKey st \<or> k = toggleFullscreenKey st then [] else [k])"
  by (simp add: key_bindings_def)

text \<open>
  Claim C7, as amended. For a key event that is not a release and not a modifier key:
  a key in the named-key table gets the token \<open><\<close>, the prefixes \<open>C-\<close>, \<open>S-\<close>, \<open>A-\<close>,
  \<open>D-\<close> of the active modifiers in this order, its table name and \<open>>\<close>; a key outside
  the table with Shift, Alt or Super active gets no token; a key outside the table with
  Control alone gets \<open><C-\<close>, the platform's key name and \<open>>\<close> when that name is not
  empty, and no token when it is empty. Without a token the handler does nothing; a token
  that is none of the three bound tokens is the one input forwarded to the backend.
\<close>

theorem key_token_construction:
  "ModifierKeys key = None \<and> action \<noteq> Release \<longrightarrow>
   (let ctrl = mods AND ModControl \<noteq> 0;
        shift = mods AND ModShift \<noteq> 0;
        alt = mods AND ModAlt \<noteq> 0;
        super = mods AND ModSuper \<noteq> 0;
        tok = key_token getKeyName key scancode mods;
        h = KeyEventHandler getKeyName st key scancode action mods
    in (\<forall>name. SpecialKeys key = Some name \<longrightarrow>
          tok = Some (''<'' @ (if ctrl then ''C-'' else '''') @ (if shift then ''S-'' else '''')
                          @ (if alt then ''A-'' else '''') @ (if super then ''D-'' else '''')
                          @ name @ ''>'')) \<and>
       (SpecialKeys key = None \<and> (shift \<or> alt \<or> super) \<longrightarrow> tok = None) \<and>
       (SpecialKeys key = None \<and> ctrl \<and> \<not> shift \<and> \<not> alt \<and> \<not> super \<longrightarrow>
          tok = (if getKeyName key scancode = '''' then None
                 else Some (''<C-'' @ getKeyName key scancode @ ''>''))) \<and>
       (tok = None \<longrightarrow> h = (st, [])) \<and>
       (\<forall>t. tok = Some t \<and> t \<noteq> zoomInKey st \<and> t \<noteq> zoomOutKey st \<and>
            t \<noteq> toggleFullscreenKey st \<longrightarrow> forwarded (snd h) = [t]))"
  by (auto simp add: Let_def key_token_def keycode_of_def KeyEventHandler_def
      forwarded_key_bindings split: option.splits)

theorem key_token_construction_witness:
  "KeyEventHandler sample_key_name InitializeInputEvents (KeyOther 65) 0 Press ModControl
     = (InitializeInputEvents, [NvimInput ''<C-a>'']) \<and>
   KeyEventHandler sample_key_name InitializeInputEvents (KeyOther 65) 0 Press ModShift
     = (InitializeInputEvents, []) \<and>
   forwarded (snd (KeyEventHandler sample_key_name InitializeInputEvents KeyUp 0 Repeat
                     (ModControl OR ModShift OR ModAlt OR ModSuper))) = [''<C-S-A-D-Up>'']"
  using
    key_token_construction [of "KeyOther 65" Press ModControl sample_key_name 0 InitializeInputEvents]
    key_token_construction [of "KeyOther 65" Press ModShift sample_key_name 0 InitializeInputEvents]
    key_token_construction [of KeyUp Repeat "ModControl OR ModShift OR ModAlt OR ModSuper"
                               sample_key_name 0 InitializeInputEvents]
  by (simp add: Let_def mod_defs sample_key_name_def InitializeInputEvents_def
      KeyEventHandler_def key_token_def keycode_of_def key_bindings_def)

text \<open>
  Claim C7 as stated fails: with Control alone on a key that is outside the table and
  has no platform name, the claim has the token \<open><C->\<close> forwarded; the handler forwards
  nothing.
\<close>

theorem control_key_without_name_is_dropped:
  "SpecialKeys (KeyOther 280) = None \<and> sample_key_name (KeyOther 280) 0 = '''' \<and>
   KeyEventHandler sample_key_name InitializeInputEvents (KeyOther 280) 0 Press ModControl
     = (InitializeInputEvents, []) \<and>
   forwarded (snd (KeyEventHandler sample_key_name InitializeInputEvents (KeyOther 280) 0 Press
                     ModControl)) \<noteq> [''<C->'']"
  by (simp add: Let_def mod_defs sample_key_name_def InitializeInputEvents_def
      KeyEventHandler_def key_token_def keycode_of_def key_bindings_def)

text \<open>
  Claim C8, as amended. A token is kept from the backend exactly when it equals the
  zoom-in, zoom-out or toggle-fullscreen binding. The escape token, when it is none of the
  three, is always forwarded: with the popup menu enabled the menu is hidden first, and
  the token is forwarded after that. Every other token is forwarded. The handler applies
  this to each token it builds.
\<close>

theorem only_bound_tokens_are_consumed:
  "(let r = key_bindings st k in
      forwarded (snd r) =
        (if k = zoomInKey st \<or> k = zoomOutKey st \<or> k = toggleFullscreenKey st then [] else [k]) \<and>
      (k = ''<ESC>'' \<and> k \<noteq> zoomInKey st \<and> k \<noteq> zoomOutKey st \<and> k \<noteq> toggleFullscreenKey st \<longrightarrow>
         r = (if popupMenuEnabled st
              then (st\<lparr> popupMenuVisible := False \<rparr>, [PopupMenuHide, NvimInput ''<ESC>''])
              else (st, [NvimInput ''<ESC>''])))) \<and>
   (ModifierKeys key = None \<and> action \<noteq> Release \<and>
    key_token getKeyName key scancode mods = Some k \<longrightarrow>
      KeyEventHandler getKeyName st key scancode action mods = key_bindings st k)"
  by (simp add: Let_def key_bindings_def KeyEventHandler_def)

theorem only_bound_tokens_witness:
  "KeyEventHandler sample_key_name InitializeInputEvents KeyEscape 0 Press 0
     = (InitializeInputEvents, [PopupMenuHide, NvimInput ''<ESC>'']) \<and>
   KeyEventHandler sample_key_name InitializeInputEvents KeyF11 0 Press 0
     = (InitializeInputEvents, [ToggleFullscreen]) \<and>
   KeyEventHandler sample_key_name InitializeInputEvents KeyF10 0 Press 0
     = (InitializeInputEvents, [NvimInput ''<F10>''])"
  using
    only_bound_tokens_are_consumed [of InitializeInputEvents "''<ESC>''" KeyEscape Press
                                       sample_key_name 0 0]
    only_bound_tokens_are_consumed [of InitializeInputEvents "''<F11>''" KeyF11 Press
                                       sample_key_name 0 0]
    only_bound_tokens_are_consumed [of InitializeInputEvents "''<F10>''" KeyF10 Press
                                       sample_key_name 0 0]
  by (simp add: Let_def mod_defs InitializeInputEvents_def KeyEventHandler_def key_token_def
      keycode_of_def key_bindings_def)

text \<open>
  Claim C8 as stated fails: an escape press while the popup menu is visible hides the
  menu and is forwarded to the backend all the same.
\<close>

theorem escape_is_forwarded_while_menu_visible:
  "snd (KeyEventHandler sample_key_name (InitializeInputEvents\<lparr> popupMenuVisible := True \<rparr>)
          KeyEscape 0 Press 0) = [PopupMenuHide, NvimInput ''<ESC>''] \<and>
   forwarded (snd (KeyEventHandler sample_key_name (InitializeInputEvents\<lparr> popupMenuVisible := True \<rparr>)
          KeyEscape 0 Press 0)) \<noteq> []"
  by (simp add: Let_def mod_defs InitializeInputEvents_def KeyEventHandler_def key_token_def
      keycode_of_def key_bindings_def)

end
